theory Spec2Isabelle
  imports Complex_Main
begin

section \<open>JavaScript values\<close>

text \<open>
  The server (\<^verbatim>\<open>src/index.js\<close>) is an Express application over one SQLite table.
  Its handlers read loosely typed values: query parameters, a JSON body, cookies.
  This section fixes the part of the language the handlers rely on.

  A JavaScript number is \<open>NaN\<close>, an infinity or a finite value. The handlers only
  compare numbers with constants and test them with \<^verbatim>\<open>Number.isFinite\<close> and
  \<^verbatim>\<open>typeof\<close>, so a finite value is kept as the rational it denotes (both zeros
  are \<open>Fin 0\<close>). A string is the list of its code units, so that \<open>length\<close> is the
  \<^verbatim>\<open>length\<close> of the source; the type \<open>char\<close> holds the code units below 256.
\<close>

datatype jsnum = NaN | PosInf | NegInf | Fin rat

fun Number_isFinite :: "jsnum \<Rightarrow> bool" where
  "Number_isFinite (Fin q) = True"
| "Number_isFinite n = False"

text \<open>The relational operators; every comparison with \<open>NaN\<close> is false.\<close>

fun js_lt :: "jsnum \<Rightarrow> jsnum \<Rightarrow> bool" where
  "js_lt NaN b = False"
| "js_lt a NaN = False"
| "js_lt (Fin a) (Fin b) = (a < b)"
| "js_lt a PosInf = (a \<noteq> PosInf)"
| "js_lt NegInf b = (b \<noteq> NegInf)"
| "js_lt a b = False"

definition js_gt :: "jsnum \<Rightarrow> jsnum \<Rightarrow> bool" where
  "js_gt a b = js_lt b a"

definition js_le :: "jsnum \<Rightarrow> jsnum \<Rightarrow> bool" where
  "js_le a b = (a \<noteq> NaN \<and> b \<noteq> NaN \<and> (js_lt a b \<or> a = b))"

datatype jsval =
    JUndefined
  | JNull
  | JBool bool
  | JNum jsnum
  | JStr string
  | JArr "jsval list"
  | JObj "(string \<times> jsval) list"

datatype jserror = TypeError | SqliteError | LookupError

text \<open>Truthiness (\<^verbatim>\<open>!v\<close>, \<^verbatim>\<open>v ? a : b\<close>, \<^verbatim>\<open>a || b\<close>).\<close>

fun truthy :: "jsval \<Rightarrow> bool" where
  "truthy JUndefined = False"
| "truthy JNull = False"
| "truthy (JBool b) = b"
| "truthy (JNum n) = (n \<noteq> NaN \<and> n \<noteq> Fin 0)"
| "truthy (JStr s) = (s \<noteq> [])"
| "truthy (JArr xs) = True"
| "truthy (JObj kvs) = True"

fun typeof :: "jsval \<Rightarrow> string" where
  "typeof JUndefined = ''undefined''"
| "typeof JNull = ''object''"
| "typeof (JBool b) = ''boolean''"
| "typeof (JNum n) = ''number''"
| "typeof (JStr s) = ''string''"
| "typeof (JArr xs) = ''object''"
| "typeof (JObj kvs) = ''object''"

fun Array_isArray :: "jsval \<Rightarrow> bool" where
  "Array_isArray (JArr xs) = True"
| "Array_isArray v = False"

text \<open>\<^verbatim>\<open>a[0]\<close> on an array: \<^verbatim>\<open>undefined\<close> when the array is empty.\<close>

fun index0 :: "jsval \<Rightarrow> jsval" where
  "index0 (JArr (x # xs)) = x"
| "index0 v = JUndefined"

text \<open>Property access on a parsed object: \<^verbatim>\<open>undefined\<close> for a missing key.\<close>

definition get_prop :: "(string \<times> jsval) list \<Rightarrow> string \<Rightarrow> jsval" where
  "get_prop obj k = (case map_of obj k of None \<Rightarrow> JUndefined | Some v \<Rightarrow> v)"

text \<open>\<^verbatim>\<open>a ?? b\<close>\<close>

definition nullish :: "jsval \<Rightarrow> jsval \<Rightarrow> jsval" where
  "nullish a b = (if a = JUndefined \<or> a = JNull then b else a)"

subsection \<open>The platform\<close>

text \<open>
  Four operations of the platform and its libraries are not code of this program and
  are taken as parameters: the WHATWG parser behind \<^verbatim>\<open>new URL(s)\<close>, which raises on a
  string that is not an absolute URL, the conversions between strings and numbers, and
  the IP location table. A parsed URL is kept as the two things the program reads from
  it.
\<close>

record url =
  protocol :: string
  toString :: string

text \<open>
  What \<^verbatim>\<open>geoip.lookup(ip)\<close> returns on a hit: \<^verbatim>\<open>region\<close> is a single token or a
  list, \<^verbatim>\<open>ll\<close> the pair of coordinates.
\<close>

datatype region = RegionToken string | RegionList "string list"

record geo =
  country :: string
  region :: region
  city :: string
  ll :: "(jsnum \<times> jsnum) option"
  accuracy :: "jsnum option"

record runtime =
  URL_new :: "string \<Rightarrow> jserror + url"
  StringToNumber :: "string \<Rightarrow> jsnum"
  NumberToString :: "jsnum \<Rightarrow> string"
  geoip_lookup :: "string \<Rightarrow> jserror + geo option"

text \<open>
  \<^verbatim>\<open>String(v)\<close>, with \<^verbatim>\<open>Array.prototype.join\<close>, which renders \<^verbatim>\<open>null\<close> and
  \<^verbatim>\<open>undefined\<close> elements as the empty string.
\<close>

fun String_js :: "runtime \<Rightarrow> jsval \<Rightarrow> string"
  and join :: "runtime \<Rightarrow> string \<Rightarrow> jsval list \<Rightarrow> string"
  and join_elem :: "runtime \<Rightarrow> jsval \<Rightarrow> string"
where
  "String_js rt JUndefined = ''undefined''"
| "String_js rt JNull = ''null''"
| "String_js rt (JBool b) = (if b then ''true'' else ''false'')"
| "String_js rt (JNum n) = NumberToString rt n"
| "String_js rt (JStr s) = s"
| "String_js rt (JArr xs) = join rt '','' xs"
| "String_js rt (JObj kvs) = ''[object Object]''"
| "join rt sep [] = []"
| "join rt sep [x] = join_elem rt x"
| "join rt sep (x # y # ys) = join_elem rt x @ sep @ join rt sep (y # ys)"
| "join_elem rt JUndefined = []"
| "join_elem rt JNull = []"
| "join_elem rt v = String_js rt v"

text \<open>\<^verbatim>\<open>Number(v)\<close>: an object or array is converted through its string form.\<close>

fun Number_js :: "runtime \<Rightarrow> jsval \<Rightarrow> jsnum" where
  "Number_js rt JUndefined = NaN"
| "Number_js rt JNull = Fin 0"
| "Number_js rt (JBool b) = Fin (if b then 1 else 0)"
| "Number_js rt (JNum n) = n"
| "Number_js rt (JStr s) = StringToNumber rt s"
| "Number_js rt v = StringToNumber rt (String_js rt v)"

section \<open>Configuration\<close>

text \<open>
  \<^verbatim>\<open>REDIRECT_DEFAULT\<close> and \<^verbatim>\<open>ADMIN_KEY\<close> are read from the environment once, at
  startup, and are constants afterwards.
\<close>

record config =
  REDIRECT_DEFAULT :: string
  ADMIN_KEY :: string

section \<open>The destination validator\<close>

text \<open>
  \<^verbatim>\<open>safeRedirectUrl(input)\<close>. The only operation of its body that can raise is the
  constructor \<^verbatim>\<open>new URL(input)\<close>; the \<^verbatim>\<open>catch\<close> around it is the \<open>Inl\<close> branch.
\<close>

definition safeRedirectUrl :: "runtime \<Rightarrow> config \<Rightarrow> jsval \<Rightarrow> string" where
  "safeRedirectUrl rt cfg input =
     (let maxLen = 2048 in
      if \<not> truthy input \<or> typeof input \<noteq> ''string'' then REDIRECT_DEFAULT cfg
      else (case input of
              JStr s \<Rightarrow>
                if length s > maxLen then REDIRECT_DEFAULT cfg
                else (case URL_new rt s of
                        Inl e \<Rightarrow> REDIRECT_DEFAULT cfg
                      | Inr parsed \<Rightarrow>
                          if protocol parsed \<noteq> ''http:'' \<and> protocol parsed \<noteq> ''https:''
                          then REDIRECT_DEFAULT cfg
                          else toString parsed)
            | _ \<Rightarrow> REDIRECT_DEFAULT cfg))"

section \<open>The click table\<close>

text \<open>
  \<open>capture\<close> is the object \<^verbatim>\<open>record\<close> that \<^verbatim>\<open>/track\<close> builds and binds to
  \<^verbatim>\<open>insertClickStmt\<close>: the fourteen columns written at creation. \<open>click\<close> is a row of
  the table \<^verbatim>\<open>clicks\<close>: those columns and the sixteen that only
  \<^verbatim>\<open>updateGeoStmt\<close> writes. \<open>None\<close> is SQL \<^verbatim>\<open>NULL\<close>. The column \<^verbatim>\<open>id\<close> is
  \<open>row_id\<close> here.
\<close>

record capture =
  row_id :: string
  created_at :: string
  ip :: string
  ip_chain :: string
  user_agent :: string
  accept_language :: string
  referrer :: string
  dest_url :: string
  approx_country :: "string option"
  approx_region :: "string option"
  approx_city :: "string option"
  approx_lat :: "jsnum option"
  approx_lon :: "jsnum option"
  approx_accuracy_km :: "jsnum option"

record click = capture +
  precise_lat :: "jsnum option"
  precise_lon :: "jsnum option"
  precise_accuracy_m :: "jsnum option"
  precise_timestamp :: "string option"
  consented :: "int option"
  device_platform :: "string option"
  device_vendor :: "string option"
  device_language :: "string option"
  device_languages :: "string option"
  device_timezone :: "string option"
  device_hardware_concurrency :: "jsnum option"
  device_memory_gb :: "jsnum option"
  device_screen_w :: "jsnum option"
  device_screen_h :: "jsnum option"
  device_color_depth :: "jsnum option"
  do_not_track :: "int option"

text \<open>
  The named parameters \<^verbatim>\<open>@id\<close>, \<^verbatim>\<open>@precise_lat\<close>, ... of \<^verbatim>\<open>updateGeoStmt\<close>.
\<close>

record geo_params =
  at_id :: string
  at_precise_lat :: "jsnum option"
  at_precise_lon :: "jsnum option"
  at_precise_accuracy_m :: "jsnum option"
  at_precise_timestamp :: string
  at_consented :: int
  at_device_platform :: "string option"
  at_device_vendor :: "string option"
  at_device_language :: "string option"
  at_device_languages :: "string option"
  at_device_timezone :: "string option"
  at_device_hardware_concurrency :: "jsnum option"
  at_device_memory_gb :: "jsnum option"
  at_device_screen_w :: "jsnum option"
  at_device_screen_h :: "jsnum option"
  at_device_color_depth :: "jsnum option"
  at_do_not_track :: int

text \<open>
  The row that \<^verbatim>\<open>INSERT INTO clicks (id, ..., approx_accuracy_km)\<close> creates: the
  columns it does not name take their defaults, \<^verbatim>\<open>0\<close> for \<^verbatim>\<open>consented\<close> and
  \<^verbatim>\<open>NULL\<close> for the others.
\<close>

definition new_row :: "capture \<Rightarrow> click" where
  "new_row r =
     \<lparr> row_id = row_id r,
       created_at = created_at r,
       ip = ip r,
       ip_chain = ip_chain r,
       user_agent = user_agent r,
       accept_language = accept_language r,
       referrer = referrer r,
       dest_url = dest_url r,
       approx_country = approx_country r,
       approx_region = approx_region r,
       approx_city = approx_city r,
       approx_lat = approx_lat r,
       approx_lon = approx_lon r,
       approx_accuracy_km = approx_accuracy_km r,
       precise_lat = None,
       precise_lon = None,
       precise_accuracy_m = None,
       precise_timestamp = None,
       consented = Some 0,
       device_platform = None,
       device_vendor = None,
       device_language = None,
       device_languages = None,
       device_timezone = None,
       device_hardware_concurrency = None,
       device_memory_gb = None,
       device_screen_w = None,
       device_screen_h = None,
       device_color_depth = None,
       do_not_track = None \<rparr>"

text \<open>
  The table is the list of its rows. A statement can raise: \<open>fault\<close> stands for a
  failure of the storage itself (a locked or full database), and the insertion also
  raises when the primary key \<^verbatim>\<open>id\<close> is taken.
\<close>

definition insertClickStmt_run :: "bool \<Rightarrow> capture \<Rightarrow> click list \<Rightarrow> jserror + click list" where
  "insertClickStmt_run fault r db =
     (if fault \<or> row_id r \<in> set (map row_id db) then Inl SqliteError
      else Inr (db @ [new_row r]))"

definition set_geo :: "geo_params \<Rightarrow> click \<Rightarrow> click" where
  "set_geo p r = r\<lparr>
     precise_lat := at_precise_lat p,
     precise_lon := at_precise_lon p,
     precise_accuracy_m := at_precise_accuracy_m p,
     precise_timestamp := Some (at_precise_timestamp p),
     consented := Some (at_consented p),
     device_platform := at_device_platform p,
     device_vendor := at_device_vendor p,
     device_language := at_device_language p,
     device_languages := at_device_languages p,
     device_timezone := at_device_timezone p,
     device_hardware_concurrency := at_device_hardware_concurrency p,
     device_memory_gb := at_device_memory_gb p,
     device_screen_w := at_device_screen_w p,
     device_screen_h := at_device_screen_h p,
     device_color_depth := at_device_color_depth p,
     do_not_track := Some (at_do_not_track p)\<rparr>"

text \<open>
  \<^verbatim>\<open>UPDATE clicks SET ... WHERE id = @id\<close>; the result carries the number of rows
  changed (\<^verbatim>\<open>info.changes\<close>) and the table afterwards.
\<close>

definition updateGeoStmt_run :: "bool \<Rightarrow> geo_params \<Rightarrow> click list \<Rightarrow> jserror + (nat \<times> click list)" where
  "updateGeoStmt_run fault p db =
     (if fault then Inl SqliteError
      else Inr (length (filter (\<lambda>r. row_id r = at_id p) db),
                map (\<lambda>r. if row_id r = at_id p then set_geo p r else r) db))"

section \<open>Requests and effects\<close>

text \<open>
  What a handler reads from the request: the parsed query (\<^verbatim>\<open>req.query\<close>, whose
  values are strings, arrays or objects), the headers, the cookies (strings) and the
  object parsed from the JSON body, each as the list of its entries, and the peer
  address.
\<close>

record request =
  query :: "(string \<times> jsval) list"
  headers :: "(string \<times> string) list"
  cookies :: "(string \<times> string) list"
  body :: "(string \<times> jsval) list"
  remoteAddress :: string
  req_ip :: string

text \<open>
  What the effectful calls of one request return: \<^verbatim>\<open>generateId()\<close>,
  \<^verbatim>\<open>new Date().toISOString()\<close>, and whether the storage fails under the statement
  that the request runs.
\<close>

record effects =
  generateId :: string
  now :: string
  storage_fault :: bool

definition or_empty :: "string option \<Rightarrow> string" where
  "or_empty v = (case v of None \<Rightarrow> [] | Some s \<Rightarrow> s)"

definition header :: "request \<Rightarrow> string \<Rightarrow> string option" where
  "header req name = map_of (headers req) name"

text \<open>\<^verbatim>\<open>req.get(name)\<close>, which reads \<^verbatim>\<open>Referer\<close> under both of its spellings.\<close>

definition req_get :: "request \<Rightarrow> string \<Rightarrow> string option" where
  "req_get req name =
     (if name = ''referer'' \<or> name = ''referrer''
      then (if or_empty (header req ''referrer'') \<noteq> [] then header req ''referrer''
            else header req ''referer'')
      else header req name)"

definition is_space :: "char \<Rightarrow> bool" where
  "is_space c = (c \<in> set [CHR 0x09, CHR 0x0A, CHR 0x0B, CHR 0x0C, CHR 0x0D, CHR 0x20, CHR 0xA0])"

definition trim :: "string \<Rightarrow> string" where
  "trim s = rev (dropWhile is_space (rev (dropWhile is_space s)))"

definition getClientIp :: "request \<Rightarrow> string" where
  "getClientIp req =
     (case header req ''x-forwarded-for'' of
        Some xff \<Rightarrow>
          if length xff > 0 then trim (takeWhile (\<lambda>c. c \<noteq> CHR '','') xff)
          else if remoteAddress req \<noteq> [] then remoteAddress req else req_ip req
      | None \<Rightarrow> if remoteAddress req \<noteq> [] then remoteAddress req else req_ip req)"

section \<open>Click capture: \<^verbatim>\<open>GET /track\<close>\<close>

record cookie =
  cookie_name :: string
  cookie_value :: string
  httpOnly :: bool
  sameSite :: string
  maxAge :: nat

text \<open>
  The two presentations: \<^verbatim>\<open>res.redirect(302, destUrl)\<close>, or the fixed interactive page
  sent with the correlation cookie.
\<close>

datatype track_response = Redirect nat string | BaitPage cookie

text \<open>
  The outcome of one capture: the response, the object built for insertion, and the
  table afterwards.
\<close>

record track_result =
  response :: track_response
  built :: capture
  store :: "click list"

definition destParam :: "request \<Rightarrow> jsval" where
  "destParam req =
     (if Array_isArray (get_prop (query req) ''u'') then index0 (get_prop (query req) ''u'')
      else get_prop (query req) ''u'')"

definition rawDest :: "runtime \<Rightarrow> request \<Rightarrow> string" where
  "rawDest rt req = (if truthy (destParam req) then String_js rt (destParam req) else [])"

definition isImageMode :: "runtime \<Rightarrow> request \<Rightarrow> bool" where
  "isImageMode rt req = (rawDest rt req = ''view-transaction'')"

text \<open>
  \<open>destUrl\<close> is \<open>None\<close> for the \<^verbatim>\<open>null\<close> of image mode; the argument of the validator
  is \<^verbatim>\<open>rawDest || REDIRECT_DEFAULT\<close>.
\<close>

definition destUrl :: "runtime \<Rightarrow> config \<Rightarrow> request \<Rightarrow> string option" where
  "destUrl rt cfg req =
     (if isImageMode rt req then None
      else Some (safeRedirectUrl rt cfg
                   (JStr (if rawDest rt req \<noteq> [] then rawDest rt req else REDIRECT_DEFAULT cfg))))"

definition lookup_approx :: "runtime \<Rightarrow> string \<Rightarrow> geo option" where
  "lookup_approx rt addr =
     (if addr \<noteq> [] then (case geoip_lookup rt addr of Inl e \<Rightarrow> None | Inr a \<Rightarrow> a)
      else None)"

definition track_record :: "runtime \<Rightarrow> config \<Rightarrow> effects \<Rightarrow> request \<Rightarrow> capture" where
  "track_record rt cfg fx req =
     (let client_ip = getClientIp req;
          approx = lookup_approx rt client_ip
      in \<lparr> row_id = generateId fx,
           created_at = now fx,
           ip = client_ip,
           ip_chain = or_empty (header req ''x-forwarded-for''),
           user_agent = or_empty (header req ''user-agent''),
           accept_language = or_empty (req_get req ''accept-language''),
           referrer = or_empty (req_get req ''referer''),
           dest_url = (case destUrl rt cfg req of None \<Rightarrow> rawDest rt req | Some u \<Rightarrow> u),
           approx_country =
             (case approx of None \<Rightarrow> None
              | Some a \<Rightarrow> if country a \<noteq> [] then Some (country a) else None),
           approx_region =
             (case approx of None \<Rightarrow> None
              | Some a \<Rightarrow>
                  (case region a of
                     RegionList xs \<Rightarrow> Some (join rt '','' (map JStr xs))
                   | RegionToken s \<Rightarrow> if s \<noteq> [] then Some s else None)),
           approx_city =
             (case approx of None \<Rightarrow> None
              | Some a \<Rightarrow> if city a \<noteq> [] then Some (city a) else None),
           approx_lat =
             (case approx of None \<Rightarrow> None
              | Some a \<Rightarrow> (case ll a of None \<Rightarrow> None | Some (la, lo) \<Rightarrow> Some la)),
           approx_lon =
             (case approx of None \<Rightarrow> None
              | Some a \<Rightarrow> (case ll a of None \<Rightarrow> None | Some (la, lo) \<Rightarrow> Some lo)),
           approx_accuracy_km =
             (case approx of None \<Rightarrow> None | Some a \<Rightarrow> accuracy a) \<rparr>)"

text \<open>
  The handler: the insertion runs inside \<^verbatim>\<open>try { ... } catch (e) { }\<close>, so a raise
  leaves the table as it was and the handler goes on. \<open>destUrl\<close> is \<open>None\<close> exactly in
  image mode, so the distinction on it is the test \<^verbatim>\<open>if (isImageMode)\<close> of the source.
\<close>

definition track :: "runtime \<Rightarrow> config \<Rightarrow> effects \<Rightarrow> request \<Rightarrow> click list \<Rightarrow> track_result" where
  "track rt cfg fx req db =
     (let new_id = generateId fx;
          record = track_record rt cfg fx req;
          db' = (case insertClickStmt_run (storage_fault fx) record db of
                   Inl e \<Rightarrow> db
                 | Inr d \<Rightarrow> d)
      in (case destUrl rt cfg req of
            None \<Rightarrow>
              \<lparr> response = BaitPage \<lparr> cookie_name = ''cid'', cookie_value = new_id, httpOnly = True,
                                        sameSite = ''lax'', maxAge = 1000 * 60 * 5 \<rparr>,
                built = record, store = db' \<rparr>
          | Some u \<Rightarrow> \<lparr> response = Redirect 302 u, built = record, store = db' \<rparr>))"

section \<open>Enrichment: \<^verbatim>\<open>POST /api/geo\<close>\<close>

text \<open>The three coercions the handler applies to the fields of the body.\<close>

definition number_or_null :: "jsval \<Rightarrow> jsnum option" where
  "number_or_null v =
     (if typeof v = ''number'' then (case v of JNum n \<Rightarrow> Some n | _ \<Rightarrow> None) else None)"

definition string_or_null :: "runtime \<Rightarrow> jsval \<Rightarrow> string option" where
  "string_or_null rt v = (if truthy v then Some (String_js rt v) else None)"

definition flag :: "jsval \<Rightarrow> int" where
  "flag v = (if truthy v then 1 else 0)"

definition geo_update :: "runtime \<Rightarrow> effects \<Rightarrow> string \<Rightarrow> (string \<times> jsval) list \<Rightarrow> geo_params" where
  "geo_update rt fx cid b =
     \<lparr> at_id = cid,
       at_precise_lat = number_or_null (get_prop b ''lat''),
       at_precise_lon = number_or_null (get_prop b ''lon''),
       at_precise_accuracy_m = number_or_null (get_prop b ''accuracy''),
       at_precise_timestamp =
         (if truthy (get_prop b ''timestamp'') then String_js rt (get_prop b ''timestamp'')
          else now fx),
       at_consented = flag (get_prop b ''consented''),
       at_device_platform = string_or_null rt (get_prop b ''platform''),
       at_device_vendor = string_or_null rt (get_prop b ''vendor''),
       at_device_language = string_or_null rt (get_prop b ''language''),
       at_device_languages =
         (case get_prop b ''languages'' of JArr xs \<Rightarrow> Some (join rt '','' xs) | _ \<Rightarrow> None),
       at_device_timezone = string_or_null rt (get_prop b ''timezone''),
       at_device_hardware_concurrency = number_or_null (get_prop b ''hardwareConcurrency''),
       at_device_memory_gb = number_or_null (get_prop b ''deviceMemory''),
       at_device_screen_w = number_or_null (get_prop b ''screenW''),
       at_device_screen_h = number_or_null (get_prop b ''screenH''),
       at_device_color_depth = number_or_null (get_prop b ''colorDepth''),
       at_do_not_track = flag (get_prop b ''doNotTrack'') \<rparr>"

text \<open>
  The responses of the handler: \<^verbatim>\<open>400 {ok: false, error: 'Missing correlation id'}\<close>,
  \<^verbatim>\<open>500 {ok: false}\<close> and \<^verbatim>\<open>200 {ok: true}\<close>.
\<close>

datatype geo_response = MissingCorrelationId | UpdateFailed | UpdateOk


text \<open>
  The outcome of one enrichment request: the response, the number of rows that the
  update statement changed (\<open>0\<close> when it did not run or raised), and the table
  afterwards.
\<close>

record geo_result =
  geo_response :: geo_response
  geo_changes :: nat
  geo_store :: "click list"

definition api_geo :: "runtime \<Rightarrow> effects \<Rightarrow> request \<Rightarrow> click list \<Rightarrow> geo_result" where
  "api_geo rt fx req db =
     (let cid = or_empty (map_of (cookies req) ''cid'')
      in if cid = [] then
           \<lparr> geo_response = MissingCorrelationId, geo_changes = 0, geo_store = db \<rparr>
         else (case updateGeoStmt_run (storage_fault fx) (geo_update rt fx cid (body req)) db of
                 Inl e \<Rightarrow> \<lparr> geo_response = UpdateFailed, geo_changes = 0, geo_store = db \<rparr>
               | Inr (n, db') \<Rightarrow> \<lparr> geo_response = UpdateOk, geo_changes = n, geo_store = db' \<rparr>))"

section \<open>Reporting: \<^verbatim>\<open>GET /api/last\<close> and \<^verbatim>\<open>GET /api/logs\<close>\<close>

text \<open>
  The coordinate object: \<^verbatim>\<open>{lat, lon, accuracy_m, source: 'browser'}\<close> or
  \<^verbatim>\<open>{lat, lon, accuracy_km, source: 'ip'}\<close>. Both handlers build it with the same
  three lines.
\<close>

datatype coords =
    FromBrowser (lat: "jsnum option") (lon: "jsnum option") (accuracy_m: "jsnum option")
  | FromIp (lat: "jsnum option") (lon: "jsnum option") (accuracy_km: "jsnum option")

fun source :: "coords \<Rightarrow> string" where
  "source (FromBrowser la lo a) = ''browser''"
| "source (FromIp la lo a) = ''ip''"

definition best_coords :: "click \<Rightarrow> coords" where
  "best_coords r =
     (let hasPrecise = (precise_lat r \<noteq> None \<and> precise_lon r \<noteq> None)
      in if hasPrecise then FromBrowser (precise_lat r) (precise_lon r) (precise_accuracy_m r)
         else FromIp (approx_lat r) (approx_lon r) (approx_accuracy_km r))"

record last_data =
  last_id :: string
  last_created_at :: string
  last_ip :: string
  last_ip_chain :: string
  last_coords :: coords

datatype last_response = LastFailed | LastNone | LastOk last_data

text \<open>
  The ordering and paging of the two \<^verbatim>\<open>SELECT\<close> statements are the engine's; the
  handlers take what the statement returns, or its raise.
\<close>

definition api_last :: "jserror + click option \<Rightarrow> last_response" where
  "api_last selected =
     (case selected of
        Inl e \<Rightarrow> LastFailed
      | Inr None \<Rightarrow> LastNone
      | Inr (Some row) \<Rightarrow>
          LastOk \<lparr> last_id = row_id row, last_created_at = created_at row, last_ip = ip row,
                   last_ip_chain = ip_chain row, last_coords = best_coords row \<rparr>)"

record log_entry =
  log_id :: string
  log_created_at :: string
  log_ip :: string
  log_ip_chain :: string
  log_best_coords :: coords
  log_approx :: "jsnum option \<times> jsnum option \<times> jsnum option"
  log_precise :: "jsnum option \<times> jsnum option \<times> jsnum option"
  log_consented :: bool

definition log_entry_of :: "click \<Rightarrow> log_entry" where
  "log_entry_of r =
     \<lparr> log_id = row_id r, log_created_at = created_at r, log_ip = ip r,
       log_ip_chain = ip_chain r,
       log_best_coords = best_coords r,
       log_approx = (approx_lat r, approx_lon r, approx_accuracy_km r),
       log_precise = (precise_lat r, precise_lon r, precise_accuracy_m r),
       log_consented = (case consented r of None \<Rightarrow> False | Some c \<Rightarrow> c \<noteq> 0) \<rparr>"

definition first_of :: "jsval \<Rightarrow> jsval" where
  "first_of v = (if Array_isArray v then index0 v else v)"

definition logs_limit :: "runtime \<Rightarrow> request \<Rightarrow> jsnum" where
  "logs_limit rt req =
     (let limitRaw = first_of (get_prop (query req) ''limit'');
          limit0 = Number_js rt (nullish limitRaw (JNum (Fin 100)));
          limit1 = (if \<not> Number_isFinite limit0 \<or> js_le limit0 (Fin 0) then Fin 100 else limit0)
      in if js_gt limit1 (Fin 1000) then Fin 1000 else limit1)"

definition logs_offset :: "runtime \<Rightarrow> request \<Rightarrow> jsnum" where
  "logs_offset rt req =
     (let offsetRaw = first_of (get_prop (query req) ''offset'');
          offset0 = Number_js rt (nullish offsetRaw (JNum (Fin 0)))
      in if \<not> Number_isFinite offset0 \<or> js_lt offset0 (Fin 0) then Fin 0 else offset0)"

text \<open>
  \<open>LogsOk data limit offset\<close> is \<^verbatim>\<open>{ok: true, data, limit, offset}\<close>. The result also
  records the parameters bound to the statement when it ran.
\<close>

datatype logs_response = Unauthorized | LogsFailed | LogsOk "log_entry list" jsnum jsnum

record logs_result =
  logs_response :: logs_response
  bound :: "(jsnum \<times> jsnum) option"

definition api_logs ::
  "runtime \<Rightarrow> config \<Rightarrow> request \<Rightarrow> (jsnum \<Rightarrow> jsnum \<Rightarrow> jserror + click list) \<Rightarrow> logs_result" where
  "api_logs rt cfg req select_page =
     (let key = first_of (get_prop (query req) ''key'')
      in if \<not> truthy key \<or> key \<noteq> JStr (ADMIN_KEY cfg) then
           \<lparr> logs_response = Unauthorized, bound = None \<rparr>
         else
           (let limit = logs_limit rt req; offset = logs_offset rt req
            in (case select_page limit offset of
                  Inl e \<Rightarrow> \<lparr> logs_response = LogsFailed, bound = Some (limit, offset) \<rparr>
                | Inr rows \<Rightarrow>
                    \<lparr> logs_response = LogsOk (map log_entry_of rows) limit offset,
                      bound = Some (limit, offset) \<rparr>)))"

section \<open>Startup: the additive migration\<close>

text \<open>
  The schema of \<^verbatim>\<open>clicks\<close> is the list of its columns, each a name and a declared
  type. \<^verbatim>\<open>ALTER TABLE clicks ADD COLUMN\<close> raises when the column exists already, and
  when the storage fails; \<open>failing\<close> lists the columns whose addition the storage
  refuses.
\<close>

type_synonym schema = "(string \<times> string) list"

definition alter_add_column :: "string list \<Rightarrow> string \<Rightarrow> string \<Rightarrow> schema \<Rightarrow> jserror + schema" where
  "alter_add_column failing name ty cols =
     (if name \<in> set failing \<or> name \<in> set (map fst cols) then Inl SqliteError
      else Inr (cols @ [(name, ty)]))"

text \<open>
  The state of the migration: the schema, and the additions attempted so far (the
  \<^verbatim>\<open>ALTER\<close> statements sent to the engine, in order).
\<close>

record migration_state =
  columns :: schema
  attempted :: "string list"

text \<open>
  \<^verbatim>\<open>addCol(name, type)\<close>: \<open>existingCols\<close> is the set computed once, before the first
  call. The first component of the result is the exception, if the call raised.
\<close>

definition addCol ::
  "string set \<Rightarrow> string list \<Rightarrow> string \<times> string \<Rightarrow> migration_state \<Rightarrow> jserror option \<times> migration_state" where
  "addCol existingCols failing c st =
     (if fst c \<notin> existingCols then
        (case alter_add_column failing (fst c) (snd c) (columns st) of
           Inl e \<Rightarrow> (Some e, st\<lparr>attempted := attempted st @ [fst c]\<rparr>)
         | Inr cols \<Rightarrow> (None, \<lparr>columns = cols, attempted = attempted st @ [fst c]\<rparr>))
      else (None, st))"


text \<open>
  A sequence of calls inside one \<^verbatim>\<open>try\<close> block: the first call that raises ends
  the sequence.
\<close>

fun addCols ::
  "string set \<Rightarrow> string list \<Rightarrow> (string \<times> string) list \<Rightarrow> migration_state \<Rightarrow> jserror option \<times> migration_state" where
  "addCols existingCols failing [] st = (None, st)"
| "addCols existingCols failing (c # cs) st =
     (case addCol existingCols failing c st of
        (Some e, st') \<Rightarrow> (Some e, st')
      | (None, st') \<Rightarrow> addCols existingCols failing cs st')"



section \<open>Sample inputs\<close>

text \<open>
  The defaults of the source for the two configured constants.
\<close>

definition default_config :: config where
  "default_config = \<lparr> REDIRECT_DEFAULT = ''https://example.com'', ADMIN_KEY = ''change-this-key'' \<rparr>"

text \<open>
  A runtime for evaluating the handlers on sample requests. On the strings it lists it
  answers as Node does; every other string it treats as not a URL and not a number, and
  it has no location for any address.
\<close>

definition sample_runtime :: runtime where
  "sample_runtime =
     \<lparr> URL_new = (\<lambda>s.
         if s = ''https://example.com'' then
           Inr \<lparr> protocol = ''https:'', toString = ''https://example.com/'' \<rparr>
         else if s = ''https://example.com/x'' then
           Inr \<lparr> protocol = ''https:'', toString = ''https://example.com/x'' \<rparr>
         else if s = ''javascript:alert(1)'' then
           Inr \<lparr> protocol = ''javascript:'', toString = ''javascript:alert(1)'' \<rparr>
         else Inl TypeError),
       StringToNumber = (\<lambda>s.
         if s = ''5000'' then Fin 5000
         else if s = ''-3'' then Fin (- 3)
         else if s = ''25'' then Fin 25
         else if s = ''7'' then Fin 7
         else if s = ''1e999'' then PosInf
         else NaN),
       NumberToString = (\<lambda>n.
         if n = Fin 42 then ''42''
         else if n = Fin 1700000000000 then ''1700000000000''
         else ''NaN''),
       geoip_lookup = (\<lambda>a. Inr None) \<rparr>"

definition sample_effects :: effects where
  "sample_effects =
     \<lparr> generateId = ''00112233445566778899aabbccddeeff'',
       now = ''2024-05-01T12:00:00.000Z'',
       storage_fault = False \<rparr>"

definition sample_row :: click where
  "sample_row = new_row
     \<lparr> row_id = ''00112233445566778899aabbccddeeff'',
       created_at = ''2024-05-01T11:59:00.000Z'',
       ip = ''203.0.113.9'', ip_chain = ''203.0.113.9, 10.0.0.1'',
       user_agent = ''curl/8.0'', accept_language = ''en'', referrer = [],
       dest_url = ''view-transaction'',
       approx_country = Some ''NP'', approx_region = None, approx_city = None,
       approx_lat = Some (Fin 27), approx_lon = Some (Fin 85), approx_accuracy_km = None \<rparr>"



definition bait_request :: request where
  "bait_request =
     \<lparr> query = [(''u'', JStr ''view-transaction'')],
       headers = [(''user-agent'', ''curl/8.0'')], cookies = [], body = [],
       remoteAddress = ''203.0.113.9'', req_ip = ''203.0.113.9'' \<rparr>"

definition enrich_request :: request where
  "enrich_request =
     \<lparr> query = [], headers = [],
       cookies = [(''cid'', ''00112233445566778899aabbccddeeff'')],
       body = [(''lat'', JNum (Fin (21 / 2))), (''lon'', JNum (Fin (81 / 4))),
               (''accuracy'', JNum (Fin 5)), (''consented'', JBool True),
               (''platform'', JNum (Fin 42)), (''languages'', JArr [JStr ''en'', JStr ''ne''])],
       remoteAddress = ''203.0.113.9'', req_ip = ''203.0.113.9'' \<rparr>"

definition logs_request :: request where
  "logs_request =
     \<lparr> query = [(''key'', JStr ''change-this-key''), (''limit'', JStr ''5000''),
                (''offset'', JStr ''-3'')],
       headers = [], cookies = [], body = [],
       remoteAddress = ''203.0.113.9'', req_ip = ''203.0.113.9'' \<rparr>"



section \<open>The destination validator, verified\<close>

lemma truthy_string:
  "(truthy input \<and> typeof input = ''string'') = (\<exists>s. input = JStr s \<and> s \<noteq> [])"
  by (cases input) auto

text \<open>
  C1. The validator is a function of its input and the configured fallback, defined on
  every value. Given that the URL constructor rejects the empty string (no absolute URL
  is empty): when the input is a string of at most 2048 code units that the constructor
  parses to a URL whose scheme is \<^verbatim>\<open>http:\<close> or \<^verbatim>\<open>https:\<close>, the result is the
  serialisation of the parsed URL; for every other input (not a string, longer, rejected
  by the constructor, another scheme) the result is \<^verbatim>\<open>REDIRECT_DEFAULT\<close>. The raise of
  the constructor is a branch of the function, so no input makes it raise.
\<close>

theorem safeRedirectUrl_valid_or_fallback:
  assumes "URL_new rt [] = Inl e"
  shows "(\<forall>s p. input = JStr s \<and> length s \<le> 2048 \<and> URL_new rt s = Inr p
                \<and> (protocol p = ''http:'' \<or> protocol p = ''https:'')
            \<longrightarrow> safeRedirectUrl rt cfg input = toString p)
       \<and> ((\<nexists>s p. input = JStr s \<and> length s \<le> 2048 \<and> URL_new rt s = Inr p
                \<and> (protocol p = ''http:'' \<or> protocol p = ''https:''))
            \<longrightarrow> safeRedirectUrl rt cfg input = REDIRECT_DEFAULT cfg)"
proof (cases input)
  case (JStr s)
  show ?thesis
  proof (cases "s = []")
    case True
    with JStr assms show ?thesis by (simp add: safeRedirectUrl_def)
  next
    case False
    with JStr show ?thesis
      by (auto simp: safeRedirectUrl_def Let_def split: sum.splits)
  qed
qed (simp_all add: safeRedirectUrl_def)

theorem safeRedirectUrl_valid_or_fallback_witness:
  "URL_new sample_runtime [] = Inl TypeError
   \<and> safeRedirectUrl sample_runtime default_config (JStr ''https://example.com/x'')
       = ''https://example.com/x''
   \<and> safeRedirectUrl sample_runtime default_config (JStr ''javascript:alert(1)'')
       = ''https://example.com''
   \<and> safeRedirectUrl sample_runtime default_config JUndefined = ''https://example.com''"
proof -
  have e: "URL_new sample_runtime [] = Inl TypeError"
    by (simp add: sample_runtime_def)
  have a: "safeRedirectUrl sample_runtime default_config (JStr ''https://example.com/x'')
             = ''https://example.com/x''"
    using safeRedirectUrl_valid_or_fallback [OF e, of "JStr ''https://example.com/x''" default_config]
    by (simp add: sample_runtime_def)
  have b: "safeRedirectUrl sample_runtime default_config (JStr ''javascript:alert(1)'')
             = ''https://example.com''"
    using safeRedirectUrl_valid_or_fallback [OF e, of "JStr ''javascript:alert(1)''" default_config]
    by (simp add: sample_runtime_def default_config_def)
  have c: "safeRedirectUrl sample_runtime default_config JUndefined = ''https://example.com''"
    using safeRedirectUrl_valid_or_fallback [OF e, of JUndefined default_config]
    by (simp add: default_config_def)
  from e a b c show ?thesis by simp
qed

section \<open>Click capture, verified\<close>

lemma built_track: "built (track rt cfg fx req db) = track_record rt cfg fx req"
  by (simp add: track_def Let_def split: option.splits)


lemma row_id_track_record: "row_id (track_record rt cfg fx req) = generateId fx"
  by (simp add: track_record_def Let_def)

lemma dest_url_track_record:
  "dest_url (track_record rt cfg fx req) =
     (case destUrl rt cfg req of None \<Rightarrow> rawDest rt req | Some u \<Rightarrow> u)"
  by (simp add: track_record_def Let_def)



lemma bait_raw: "rawDest sample_runtime bait_request = ''view-transaction''"
  by (simp add: rawDest_def destParam_def bait_request_def get_prop_def)




text \<open>
  C5. For every capture in image mode (the destination is the sentinel
  \<^verbatim>\<open>view-transaction\<close>), the response is the interactive page with a cookie \<^verbatim>\<open>cid\<close>
  whose value is the identifier of the record built for insertion, and the
  \<^verbatim>\<open>dest_url\<close> of that record is the sentinel.
\<close>

theorem track_bait_cookie:
  assumes "isImageMode rt req"
  shows "\<exists>c. response (track rt cfg fx req db) = BaitPage c
           \<and> cookie_name c = ''cid''
           \<and> cookie_value c = row_id (built (track rt cfg fx req db))
           \<and> dest_url (built (track rt cfg fx req db)) = ''view-transaction''"
proof -
  from assms have d: "destUrl rt cfg req = None" by (simp add: destUrl_def)
  from assms have r: "rawDest rt req = ''view-transaction''" by (simp add: isImageMode_def)
  have "dest_url (built (track rt cfg fx req db)) = ''view-transaction''"
    by (simp only: built_track dest_url_track_record d r option.case)
  moreover have "row_id (built (track rt cfg fx req db)) = generateId fx"
    by (simp only: built_track row_id_track_record)
  moreover have "response (track rt cfg fx req db)
      = BaitPage \<lparr> cookie_name = ''cid'', cookie_value = generateId fx, httpOnly = True,
                    sameSite = ''lax'', maxAge = 1000 * 60 * 5 \<rparr>"
    by (simp add: track_def Let_def d)
  ultimately show ?thesis by simp
qed

theorem track_bait_cookie_witness:
  "isImageMode sample_runtime bait_request
   \<and> (\<exists>c. response (track sample_runtime default_config sample_effects bait_request [])
             = BaitPage c
          \<and> cookie_name c = ''cid''
          \<and> cookie_value c = ''00112233445566778899aabbccddeeff'')
   \<and> row_id (built (track sample_runtime default_config sample_effects bait_request []))
       = ''00112233445566778899aabbccddeeff''
   \<and> dest_url (built (track sample_runtime default_config sample_effects bait_request []))
       = ''view-transaction''"
proof -
  have i: "isImageMode sample_runtime bait_request"
    by (simp add: isImageMode_def bait_raw)
  have g: "row_id (built (track sample_runtime default_config sample_effects bait_request []))
       = ''00112233445566778899aabbccddeeff''"
    by (simp only: built_track row_id_track_record) (simp add: sample_effects_def)
  show ?thesis
    using i g track_bait_cookie [OF i, of default_config sample_effects "[]"] by auto
qed

section \<open>Enrichment, verified\<close>





text \<open>
  The primary key at work: an insertion that returns keeps the identifiers of the table
  distinct, and an update leaves them as they are.
\<close>

lemma insert_keeps_distinct:
  "distinct (map row_id db) \<Longrightarrow> insertClickStmt_run fault r db = Inr db'
   \<Longrightarrow> distinct (map row_id db')"
  by (auto simp: insertClickStmt_run_def new_row_def split: if_splits)

lemma row_id_set_geo: "row_id (set_geo p r) = row_id r"
  by (simp add: set_geo_def)

lemma update_keeps_ids:
  "updateGeoStmt_run fault p db = Inr (n, db') \<Longrightarrow> map row_id db' = map row_id db"
  by (auto simp: updateGeoStmt_run_def row_id_set_geo split: if_splits)






lemma truncate_set_geo: "capture.truncate (set_geo p r) = capture.truncate r"
  by (simp add: set_geo_def capture.truncate_def)

text \<open>
  C9. For every enrichment request, the fourteen capture-time columns (\<^verbatim>\<open>id\<close>,
  \<^verbatim>\<open>created_at\<close>, \<^verbatim>\<open>ip\<close>, \<^verbatim>\<open>ip_chain\<close>, \<^verbatim>\<open>user_agent\<close>, \<^verbatim>\<open>accept_language\<close>,
  \<^verbatim>\<open>referrer\<close>, \<^verbatim>\<open>dest_url\<close> and the six \<^verbatim>\<open>approx_\<close> columns) of every row of the
  table, the targeted one included, are the same after the request as before, and no row
  is added or removed: the update writes the precise and device columns only.
\<close>

theorem geo_frame:
  "map capture.truncate (geo_store (api_geo rt fx req db)) = map capture.truncate db"
  by (auto simp: api_geo_def Let_def updateGeoStmt_run_def truncate_set_geo split: sum.splits)

lemma sample_row_dest: "dest_url (capture.truncate sample_row) = ''view-transaction''"
  by (simp add: sample_row_def new_row_def capture.truncate_def)

theorem geo_frame_witness:
  "map capture.truncate (geo_store (api_geo sample_runtime sample_effects enrich_request [sample_row]))
     = [capture.truncate sample_row]
   \<and> dest_url (capture.truncate sample_row) = ''view-transaction''"
  using geo_frame [of sample_runtime sample_effects enrich_request "[sample_row]"] sample_row_dest
  by simp

section \<open>Reporting, verified\<close>

lemma js_le_Fin [simp]: "js_le (Fin a) (Fin b) = (a \<le> b)"
  by (auto simp: js_le_def)

lemma js_gt_Fin [simp]: "js_gt (Fin a) (Fin b) = (b < a)"
  by (simp add: js_gt_def)

lemma logs_request_limit: "first_of (get_prop (query logs_request) ''limit'') = JStr ''5000''"
  by (simp add: logs_request_def get_prop_def first_of_def)

lemma logs_request_offset: "first_of (get_prop (query logs_request) ''offset'') = JStr ''-3''"
  by (simp add: logs_request_def get_prop_def first_of_def)



lemma sample_numbers:
  "StringToNumber sample_runtime ''5000'' = Fin 5000"
  "StringToNumber sample_runtime ''-3'' = Fin (- 3)"
  by (simp_all add: sample_runtime_def)

lemma logs_request_key: "first_of (get_prop (query logs_request) ''key'') = JStr (ADMIN_KEY default_config)"
  by (simp add: logs_request_def get_prop_def first_of_def default_config_def)

lemma logs_request_limits:
  "logs_limit sample_runtime logs_request = Fin 1000"
  "logs_offset sample_runtime logs_request = Fin 0"
  unfolding logs_limit_def logs_offset_def Let_def logs_request_limit logs_request_offset
  by (simp_all add: nullish_def sample_numbers)

lemma logs_request_ok:
  "logs_response (api_logs sample_runtime default_config logs_request (\<lambda>a b. Inr rows))
     = LogsOk (map log_entry_of rows) (Fin 1000) (Fin 0)"
  unfolding api_logs_def Let_def logs_request_key logs_request_limits
  by (simp add: default_config_def)

lemma sample_row_coords:
  "precise_lat sample_row = None"
  "approx_lat sample_row = Some (Fin 27)"
  "approx_lon sample_row = Some (Fin 85)"
  "approx_accuracy_km sample_row = None"
  by (simp_all add: sample_row_def new_row_def)

text \<open>
  C6. The latest-record handler, for the row \<open>r\<close> that its statement returns, and the
  paged-list handler, for each row that its statement returns, report a coordinate
  chosen so: when \<^verbatim>\<open>precise_lat\<close> and \<^verbatim>\<open>precise_lon\<close> are both non-null, the precise
  values with source \<^verbatim>\<open>browser\<close>; otherwise the approximate values with source
  \<^verbatim>\<open>ip\<close>, whatever they are, null included.
\<close>

theorem best_coords_selection:
  "(\<exists>d. api_last (Inr (Some r)) = LastOk d \<and>
      (if precise_lat r \<noteq> None \<and> precise_lon r \<noteq> None
       then last_coords d = FromBrowser (precise_lat r) (precise_lon r) (precise_accuracy_m r)
            \<and> source (last_coords d) = ''browser''
       else last_coords d = FromIp (approx_lat r) (approx_lon r) (approx_accuracy_km r)
            \<and> source (last_coords d) = ''ip''))
 \<and> (logs_response (api_logs rt cfg req sel) = LogsOk data lm ofs \<longrightarrow>
      (\<exists>rows. sel lm ofs = Inr rows \<and> length data = length rows \<and>
         (\<forall>i<length rows.
            if precise_lat (rows ! i) \<noteq> None \<and> precise_lon (rows ! i) \<noteq> None
            then log_best_coords (data ! i)
                   = FromBrowser (precise_lat (rows ! i)) (precise_lon (rows ! i))
                       (precise_accuracy_m (rows ! i))
                 \<and> source (log_best_coords (data ! i)) = ''browser''
            else log_best_coords (data ! i)
                   = FromIp (approx_lat (rows ! i)) (approx_lon (rows ! i))
                       (approx_accuracy_km (rows ! i))
                 \<and> source (log_best_coords (data ! i)) = ''ip'')))"
proof
  show "\<exists>d. api_last (Inr (Some r)) = LastOk d \<and>
      (if precise_lat r \<noteq> None \<and> precise_lon r \<noteq> None
       then last_coords d = FromBrowser (precise_lat r) (precise_lon r) (precise_accuracy_m r)
            \<and> source (last_coords d) = ''browser''
       else last_coords d = FromIp (approx_lat r) (approx_lon r) (approx_accuracy_km r)
            \<and> source (last_coords d) = ''ip'')"
    by (simp add: api_last_def best_coords_def Let_def)
next
  show "logs_response (api_logs rt cfg req sel) = LogsOk data lm ofs \<longrightarrow>
      (\<exists>rows. sel lm ofs = Inr rows \<and> length data = length rows \<and>
         (\<forall>i<length rows.
            if precise_lat (rows ! i) \<noteq> None \<and> precise_lon (rows ! i) \<noteq> None
            then log_best_coords (data ! i)
                   = FromBrowser (precise_lat (rows ! i)) (precise_lon (rows ! i))
                       (precise_accuracy_m (rows ! i))
                 \<and> source (log_best_coords (data ! i)) = ''browser''
            else log_best_coords (data ! i)
                   = FromIp (approx_lat (rows ! i)) (approx_lon (rows ! i))
                       (approx_accuracy_km (rows ! i))
                 \<and> source (log_best_coords (data ! i)) = ''ip''))"
  proof
    assume a: "logs_response (api_logs rt cfg req sel) = LogsOk data lm ofs"
    then obtain rows where r: "sel lm ofs = Inr rows" and d: "data = map log_entry_of rows"
      by (auto simp: api_logs_def Let_def split: if_splits sum.splits)
    have "\<forall>i<length rows.
            if precise_lat (rows ! i) \<noteq> None \<and> precise_lon (rows ! i) \<noteq> None
            then log_best_coords (data ! i)
                   = FromBrowser (precise_lat (rows ! i)) (precise_lon (rows ! i))
                       (precise_accuracy_m (rows ! i))
                 \<and> source (log_best_coords (data ! i)) = ''browser''
            else log_best_coords (data ! i)
                   = FromIp (approx_lat (rows ! i)) (approx_lon (rows ! i))
                       (approx_accuracy_km (rows ! i))
                 \<and> source (log_best_coords (data ! i)) = ''ip''"
      by (simp add: d log_entry_of_def best_coords_def Let_def)
    with r d show "\<exists>rows. sel lm ofs = Inr rows \<and> length data = length rows \<and>
         (\<forall>i<length rows.
            if precise_lat (rows ! i) \<noteq> None \<and> precise_lon (rows ! i) \<noteq> None
            then log_best_coords (data ! i)
                   = FromBrowser (precise_lat (rows ! i)) (precise_lon (rows ! i))
                       (precise_accuracy_m (rows ! i))
                 \<and> source (log_best_coords (data ! i)) = ''browser''
            else log_best_coords (data ! i)
                   = FromIp (approx_lat (rows ! i)) (approx_lon (rows ! i))
                       (approx_accuracy_km (rows ! i))
                 \<and> source (log_best_coords (data ! i)) = ''ip'')"
      by auto
  qed
qed

theorem best_coords_selection_witness:
  "(\<exists>d. api_last (Inr (Some sample_row)) = LastOk d
        \<and> last_coords d = FromIp (Some (Fin 27)) (Some (Fin 85)) None
        \<and> source (last_coords d) = ''ip'')
 \<and> (\<exists>d. api_last (Inr (Some (sample_row\<lparr>precise_lat := Some (Fin (21 / 2)),
                                         precise_lon := Some (Fin (81 / 4))\<rparr>))) = LastOk d
        \<and> lat (last_coords d) = Some (Fin (21 / 2))
        \<and> lon (last_coords d) = Some (Fin (81 / 4))
        \<and> source (last_coords d) = ''browser'')
 \<and> (\<exists>e. logs_response (api_logs sample_runtime default_config logs_request
                          (\<lambda>a b. Inr [sample_row]))
           = LogsOk [e] (Fin 1000) (Fin 0)
        \<and> log_best_coords e = FromIp (Some (Fin 27)) (Some (Fin 85)) None
        \<and> source (log_best_coords e) = ''ip'')"
proof -
  have a: "\<exists>d. api_last (Inr (Some sample_row)) = LastOk d
        \<and> last_coords d = FromIp (Some (Fin 27)) (Some (Fin 85)) None
        \<and> source (last_coords d) = ''ip''"
    using best_coords_selection [of sample_row, THEN conjunct1]
    by (simp add: sample_row_coords)
  have b: "\<exists>d. api_last (Inr (Some (sample_row\<lparr>precise_lat := Some (Fin (21 / 2)),
                                         precise_lon := Some (Fin (81 / 4))\<rparr>))) = LastOk d
        \<and> lat (last_coords d) = Some (Fin (21 / 2))
        \<and> lon (last_coords d) = Some (Fin (81 / 4))
        \<and> source (last_coords d) = ''browser''"
    using best_coords_selection [of "sample_row\<lparr>precise_lat := Some (Fin (21 / 2)),
                                         precise_lon := Some (Fin (81 / 4))\<rparr>", THEN conjunct1]
    by auto
  have r: "logs_response (api_logs sample_runtime default_config logs_request
                          (\<lambda>a b. Inr [sample_row]))
           = LogsOk [log_entry_of sample_row] (Fin 1000) (Fin 0)"
    using logs_request_ok [of "[sample_row]"] by simp
  from best_coords_selection [of _ sample_runtime default_config logs_request
      "\<lambda>a b. Inr [sample_row]" "[log_entry_of sample_row]" "Fin 1000" "Fin 0", THEN conjunct2] r
  have "log_best_coords (log_entry_of sample_row) = FromIp (Some (Fin 27)) (Some (Fin 85)) None
        \<and> source (log_best_coords (log_entry_of sample_row)) = ''ip''"
    by (auto simp: sample_row_coords)
  with r have c: "\<exists>e. logs_response (api_logs sample_runtime default_config logs_request
                          (\<lambda>a b. Inr [sample_row]))
           = LogsOk [e] (Fin 1000) (Fin 0)
        \<and> log_best_coords e = FromIp (Some (Fin 27)) (Some (Fin 85)) None
        \<and> source (log_best_coords e) = ''ip''"
    by blast
  from a b c show ?thesis by blast
qed






text \<open>
  C10. For every paged-list request answered with a list, the \<^verbatim>\<open>limit\<close> and
  \<^verbatim>\<open>offset\<close> of the response body are the effective limit and offset (after
  defaulting, correction and capping), and they are the parameters that were bound to
  the statement whose rows the body carries.
\<close>

theorem logs_echo:
  "logs_response (api_logs rt cfg req sel) = LogsOk data lm ofs \<longrightarrow>
     lm = logs_limit rt req \<and> ofs = logs_offset rt req
   \<and> bound (api_logs rt cfg req sel) = Some (lm, ofs)
   \<and> (\<exists>rows. sel lm ofs = Inr rows \<and> data = map log_entry_of rows)"
  by (auto simp: api_logs_def Let_def split: if_splits sum.splits)

theorem logs_echo_witness:
  "logs_response (api_logs sample_runtime default_config logs_request (\<lambda>a b. Inr []))
     = LogsOk [] (Fin 1000) (Fin 0)
   \<and> bound (api_logs sample_runtime default_config logs_request (\<lambda>a b. Inr []))
     = Some (Fin 1000, Fin 0)
   \<and> Fin 1000 = logs_limit sample_runtime logs_request
   \<and> Fin 0 = logs_offset sample_runtime logs_request
   \<and> Number_js sample_runtime (first_of (get_prop (query logs_request) ''limit'')) = Fin 5000"
proof -
  have r: "logs_response (api_logs sample_runtime default_config logs_request (\<lambda>a b. Inr []))
     = LogsOk [] (Fin 1000) (Fin 0)"
    using logs_request_ok [of "[]"] by simp
  from logs_echo [of sample_runtime default_config logs_request "\<lambda>a b. Inr []" "[]" "Fin 1000" "Fin 0"] r
  have "Fin 1000 = logs_limit sample_runtime logs_request
      \<and> Fin 0 = logs_offset sample_runtime logs_request
      \<and> bound (api_logs sample_runtime default_config logs_request (\<lambda>a b. Inr []))
          = Some (Fin 1000, Fin 0)"
    by blast
  with r show ?thesis by (simp add: logs_request_limit sample_numbers)
qed

section \<open>The enrichment payload, verified\<close>





section \<open>The migration, verified\<close>

lemma addCols_present:
  "set (map fst cs) \<subseteq> E \<Longrightarrow> addCols E F cs st = (None, st)"
  by (induction cs) (auto simp: addCol_def)









end
